theory Spec2Isabelle
  imports Main
begin

section \<open>The media catalog page (static/script.js) and its table (CREATE TABLE media)\<close>

subsection \<open>JavaScript values and objects\<close>

text \<open>
  The fields of a media entry that the page reads (\<open>title\<close>, \<open>type\<close>,
  \<open>description\<close>) are TEXT columns of the \<open>media\<close> table: in the JSON of a
  response each is a string, \<open>null\<close>, or missing from the object, and reading a
  missing property gives \<open>undefined\<close>.
\<close>

datatype jsval = Undefined | Null | Str string

text \<open>The condition of \<open>if (v)\<close>: \<open>undefined\<close>, \<open>null\<close> and the empty string are falsy.\<close>

fun truthy :: "jsval \<Rightarrow> bool" where
  "truthy Undefined = False"
| "truthy Null = False"
| "truthy (Str s) = (s \<noteq> [])"

text \<open>The property name that \<open>obj[v]\<close> reads: the value converted to a string.\<close>

fun to_property_key :: "jsval \<Rightarrow> string" where
  "to_property_key Undefined = ''undefined''"
| "to_property_key Null = ''null''"
| "to_property_key (Str s) = s"

type_synonym js_object = "string \<rightharpoonup> jsval"

definition get_prop :: "js_object \<Rightarrow> string \<Rightarrow> jsval" where
  "get_prop obj k = (case obj k of None \<Rightarrow> Undefined | Some v \<Rightarrow> v)"

text \<open>
  What an awaited promise can throw in this page: \<open>fetch\<close> rejecting (transport
  failure), \<open>response.json()\<close> rejecting (parse failure), and the TypeError of reading
  a property of \<open>undefined\<close>.
\<close>

datatype js_error = FetchFailed | JsonParseFailed | TypeError

text \<open>How the promise of an \<open>async function\<close> settles.\<close>

datatype completion = Fulfilled | Rejected js_error

subsection \<open>The page\<close>

text \<open>
  A file card: the three values that \<open>createFileElement\<close> interpolates into the
  card's HTML (the \<open>src\<close> of the \<open>file-thumbnail\<close> image, the text of the
  \<open>file-title\<close> span and of the \<open>file-description\<close> paragraph). The download button
  is the same on every card. The script inserts the card's HTML as markup, so that tags
  in a title or a description are parsed inside their card; the card of the model holds
  the values as they are given.
\<close>

record file_element =
  file_thumbnail :: jsval
  file_title :: jsval
  file_description :: jsval

text \<open>
  A child of the \<open>browser\<close> element: a card appended with \<open>appendChild\<close>, or the
  content parsed from a non-empty HTML string assigned to \<open>innerHTML\<close>.
\<close>

datatype node = FileDiv file_element | Html string

text \<open>
  The state of the document that the script reads and writes. A form is its fields'
  names with their current values; \<open>newEntryForm_defaults\<close> are the values the
  markup gives them (the markup is not part of the script), which \<open>reset()\<close> restores.
  \<open>console\<close> is what \<open>console.log\<close> has printed, \<open>unhandled\<close> the rejections of
  promises that nothing awaits.
\<close>

record page =
  browser :: "node list"
  searchModeBtn_innerText :: string
  searchFormSimple_display :: string
  searchFormAdvanced_display :: string
  body_overflow :: string
  newEntryView_display :: string
  searchFormSimple_values :: "(string \<times> string) list"
  newEntryForm_values :: "(string \<times> string) list"
  newEntryForm_defaults :: "(string \<times> string) list"
  console :: "js_error list"
  unhandled :: "js_error list"

subsection \<open>Card renderer\<close>

definition file_icon :: string where
  "file_icon = ''./static/resources/file_icon_500_500.svg''"

text \<open>
  The table of default icons, with the four properties the object literal gives it. (A
  type that names a member every object inherits, such as \<open>constructor\<close>, would
  read that member; the model looks among the literal's own properties.)
\<close>

definition fileTypeThumbnailMap :: js_object where
  "fileTypeThumbnailMap =
     [''movie'' \<mapsto> Str file_icon,
      ''show'' \<mapsto> Str file_icon,
      ''music'' \<mapsto> Str file_icon,
      ''book'' \<mapsto> Str file_icon]"

definition createFileElement :: "jsval \<Rightarrow> jsval \<Rightarrow> jsval \<Rightarrow> jsval \<Rightarrow> file_element" where
  "createFileElement title type description imgSource =
     (let thumbnail =
        (if truthy imgSource then imgSource
         else get_prop fileTypeThumbnailMap (to_property_key type))
      in \<lparr>file_thumbnail = thumbnail, file_title = title, file_description = description\<rparr>)"

text \<open>
  The card of one entry as \<open>renderMediaEntries\<close> builds it: the call passes three
  arguments, so the fourth parameter \<open>imgSource\<close> is \<open>undefined\<close>.
\<close>

definition entry_fileDiv :: "js_object \<Rightarrow> node" where
  "entry_fileDiv entry =
     FileDiv (createFileElement (get_prop entry ''title'') (get_prop entry ''type'')
       (get_prop entry ''description'') Undefined)"

text \<open>The \<open>for (const entry of entries)\<close> loop, appending one card per iteration.\<close>

fun append_entries :: "js_object list \<Rightarrow> node list \<Rightarrow> node list" where
  "append_entries [] children = children"
| "append_entries (entry # rest) children = append_entries rest (children @ [entry_fileDiv entry])"

definition no_results_html :: string where
  \<open>no_results_html = ''<span class="message">No results found</span?''\<close>

text \<open>
  \<open>renderMediaEntries\<close> is an \<open>async function\<close>: an exception in its body rejects
  the promise it returns. Its argument is \<open>None\<close> for \<open>undefined\<close>, where reading
  \<open>entries.length\<close> throws before the page is touched, and \<open>Some entries\<close> for an
  array of entry objects. Assigning the empty string to \<open>innerHTML\<close> removes every
  child; the other string assigned ends in \<open></span?\<close>, which the HTML parser does
  not read as an end tag, so that the span is closed by the end of the string.
\<close>

definition renderMediaEntries :: "js_object list option \<Rightarrow> page \<Rightarrow> completion \<times> page" where
  "renderMediaEntries arg p =
     (case arg of
        None \<Rightarrow> (Rejected TypeError, p)
      | Some entries \<Rightarrow>
          if length entries > 0
          then (let cleared = p\<lparr>browser := []\<rparr>
                in (Fulfilled, cleared\<lparr>browser := append_entries entries (browser cleared)\<rparr>))
          else (Fulfilled, p\<lparr>browser := [Html no_results_html]\<rparr>))"

subsection \<open>View-state controller\<close>

definition toggleSearchMode :: "string \<Rightarrow> page \<Rightarrow> page" where
  "toggleSearchMode mode p =
     (if mode = ''simple''
      then p\<lparr>searchModeBtn_innerText := ''Advanced Search'',
             searchFormSimple_display := ''flex'',
             searchFormAdvanced_display := ''none''\<rparr>
      else if mode = ''advanced''
      then p\<lparr>searchModeBtn_innerText := ''Simple Search'',
             searchFormSimple_display := ''none'',
             searchFormAdvanced_display := ''flex''\<rparr>
      else p)"

definition toggleNewEntryView :: "bool \<Rightarrow> page \<Rightarrow> page" where
  "toggleNewEntryView entry p =
     (if entry
      then p\<lparr>body_overflow := ''hidden'', newEntryView_display := ''flex''\<rparr>
      else p\<lparr>body_overflow := ''auto'', newEntryView_display := ''none''\<rparr>)"

text \<open>The click listener of the search mode button: it reads the button's own label.\<close>

definition searchModeBtn_click :: "page \<Rightarrow> page" where
  "searchModeBtn_click p =
     (if searchModeBtn_innerText p = ''Simple Search'' then toggleSearchMode ''simple'' p
      else if searchModeBtn_innerText p = ''Advanced Search'' then toggleSearchMode ''advanced'' p
      else p)"

definition newEntryViewBtn_click :: "page \<Rightarrow> page" where
  "newEntryViewBtn_click p = toggleNewEntryView True p"

definition newEntryExitBtn_click :: "page \<Rightarrow> page" where
  "newEntryExitBtn_click p = toggleNewEntryView False p"

text \<open>The two calls at the end of the script, run on whatever the markup loaded.\<close>

definition initial_page_setup :: "page \<Rightarrow> page" where
  "initial_page_setup p = toggleNewEntryView False (toggleSearchMode ''simple'' p)"

subsection \<open>Network calls and the listeners that make them\<close>

text \<open>
  What the backend does is an input of the model: \<open>await fetch(...)\<close> rejects, or it
  resolves and \<open>await response.json()\<close> rejects, or both resolve with the array of
  entries that the three endpoints answer with. (While a promise has not settled, the
  listener that awaits it stays suspended and does nothing.)
\<close>

datatype network = FetchRejects | JsonRejects | JsonResolves "js_object list"

definition await_json :: "network \<Rightarrow> js_error + js_object list" where
  "await_json net =
     (case net of
        FetchRejects \<Rightarrow> Inl FetchFailed
      | JsonRejects \<Rightarrow> Inl JsonParseFailed
      | JsonResolves entries \<Rightarrow> Inr entries)"

text \<open>
  A promise that nothing awaits (the one a listener returns to the event dispatcher, and
  the one of a call written without \<open>await\<close>): its rejection is reported by the
  runtime as unhandled, and the caller goes on.
\<close>

definition not_awaited :: "completion \<times> page \<Rightarrow> page" where
  "not_awaited r =
     (case fst r of
        Fulfilled \<Rightarrow> snd r
      | Rejected e \<Rightarrow> (snd r)\<lparr>unhandled := unhandled (snd r) @ [e]\<rparr>)"

text \<open>\<open>getRecentMediaEntries\<close> has no \<open>try\<close>: a rejection of either await is its own.\<close>

definition getRecentMediaEntries :: "network \<Rightarrow> js_error + js_object list" where
  "getRecentMediaEntries net = await_json net"

text \<open>The \<open>load\<close> listener awaits both calls, again without a \<open>try\<close>.\<close>

definition window_load :: "network \<Rightarrow> page \<Rightarrow> completion \<times> page" where
  "window_load net p =
     (case getRecentMediaEntries net of
        Inl e \<Rightarrow> (Rejected e, p)
      | Inr entries \<Rightarrow> renderMediaEntries (Some entries) p)"

record request =
  req_method :: string
  req_path :: string
  req_body :: "string \<rightharpoonup> string"

text \<open>\<open>Object.fromEntries\<close>: of two entries with one name the later one stays.\<close>

definition fromEntries :: "(string \<times> string) list \<Rightarrow> (string \<rightharpoonup> string)" where
  "fromEntries kvs = map_of (rev kvs)"

text \<open>
  A submit listener runs in two parts. The first runs when the event is dispatched, up
  to the call of \<open>fetch\<close>, and gives the request that is sent. The second runs when
  the awaited promises have settled, on the page as it is by then (other listeners may
  have run in between): the \<open>try\<close>/\<open>catch\<close> leaves the hoisted \<open>var result\<close>
  undefined when an await rejected, and the statements after it run in both cases.
\<close>

definition searchFormSimple_submit_request :: "page \<Rightarrow> request \<times> page" where
  "searchFormSimple_submit_request p =
     (\<lparr>req_method = ''POST'', req_path = ''/api/general-search'',
       req_body = fromEntries (searchFormSimple_values p)\<rparr>, p)"

definition searchFormSimple_submit_settled :: "network \<Rightarrow> page \<Rightarrow> completion \<times> page" where
  "searchFormSimple_submit_settled net p =
     (let (result, p1) =
            (case await_json net of
               Inl error \<Rightarrow> (None, p\<lparr>console := console p @ [error]\<rparr>)
             | Inr entries \<Rightarrow> (Some entries, p));
          p2 = not_awaited (renderMediaEntries result p1)
      in (Fulfilled, p2))"

definition searchFormSimple_submit :: "network \<Rightarrow> page \<Rightarrow> completion \<times> page" where
  "searchFormSimple_submit net p =
     searchFormSimple_submit_settled net (snd (searchFormSimple_submit_request p))"

definition newEntryForm_submit_request :: "page \<Rightarrow> request \<times> page" where
  "newEntryForm_submit_request p =
     (let data = newEntryForm_values p;
          p1 = p\<lparr>newEntryForm_values := newEntryForm_defaults p\<rparr>
      in (\<lparr>req_method = ''POST'', req_path = ''/api/new'', req_body = fromEntries data\<rparr>, p1))"

definition newEntryForm_submit_settled :: "network \<Rightarrow> page \<Rightarrow> completion \<times> page" where
  "newEntryForm_submit_settled net p =
     (let (result, p1) =
            (case await_json net of
               Inl error \<Rightarrow> (None, p\<lparr>console := console p @ [error]\<rparr>)
             | Inr entries \<Rightarrow> (Some entries, p));
          p2 = not_awaited (renderMediaEntries result p1);
          p3 = toggleNewEntryView False p2
      in (Fulfilled, p3))"

definition newEntryForm_submit :: "network \<Rightarrow> page \<Rightarrow> completion \<times> page" where
  "newEntryForm_submit net p =
     newEntryForm_submit_settled net (snd (newEntryForm_submit_request p))"

subsection \<open>The new-entry submit listener, statement by statement\<close>

text \<open>
  To say in which order the listener acts, its statements are also given as the list of
  the effects they have, in the order of the source: each effect is one call or
  assignment of the script, and \<open>apply_effect\<close> is what it does to the page.
\<close>

datatype effect =
    PreventDefault
  | FormReset
  | Fetch request
  | ConsoleLog js_error
  | SetInnerHTML string
  | AppendChild node
  | UnhandledRejection js_error
  | SetBodyOverflow string
  | SetNewEntryViewDisplay string

fun apply_effect :: "effect \<Rightarrow> page \<Rightarrow> page" where
  "apply_effect PreventDefault p = p"
| "apply_effect FormReset p = p\<lparr>newEntryForm_values := newEntryForm_defaults p\<rparr>"
| "apply_effect (Fetch r) p = p"
| "apply_effect (ConsoleLog e) p = p\<lparr>console := console p @ [e]\<rparr>"
| "apply_effect (SetInnerHTML s) p = p\<lparr>browser := (if s = [] then [] else [Html s])\<rparr>"
| "apply_effect (AppendChild n) p = p\<lparr>browser := browser p @ [n]\<rparr>"
| "apply_effect (UnhandledRejection e) p = p\<lparr>unhandled := unhandled p @ [e]\<rparr>"
| "apply_effect (SetBodyOverflow s) p = p\<lparr>body_overflow := s\<rparr>"
| "apply_effect (SetNewEntryViewDisplay s) p = p\<lparr>newEntryView_display := s\<rparr>"

text \<open>The request is sent by \<open>fetch\<close>.\<close>

fun is_fetch :: "effect \<Rightarrow> bool" where
  "is_fetch (Fetch r) = True"
| "is_fetch e = False"

text \<open>The effects on the display region, and those on the overlay and the scrolling.\<close>

fun is_browser_effect :: "effect \<Rightarrow> bool" where
  "is_browser_effect (SetInnerHTML s) = True"
| "is_browser_effect (AppendChild n) = True"
| "is_browser_effect e = False"

fun is_overlay_effect :: "effect \<Rightarrow> bool" where
  "is_overlay_effect (SetBodyOverflow s) = True"
| "is_overlay_effect (SetNewEntryViewDisplay s) = True"
| "is_overlay_effect e = False"

definition renderMediaEntries_effects :: "js_object list option \<Rightarrow> completion \<times> effect list" where
  "renderMediaEntries_effects arg =
     (case arg of
        None \<Rightarrow> (Rejected TypeError, [])
      | Some entries \<Rightarrow>
          if length entries > 0
          then (Fulfilled, SetInnerHTML [] # map (\<lambda>entry. AppendChild (entry_fileDiv entry)) entries)
          else (Fulfilled, [SetInnerHTML no_results_html]))"

definition toggleNewEntryView_effects :: "bool \<Rightarrow> effect list" where
  "toggleNewEntryView_effects entry =
     (if entry
      then [SetBodyOverflow ''hidden'', SetNewEntryViewDisplay ''flex'']
      else [SetBodyOverflow ''auto'', SetNewEntryViewDisplay ''none''])"

definition not_awaited_effects :: "completion \<times> effect list \<Rightarrow> effect list" where
  "not_awaited_effects r =
     snd r @ (case fst r of Fulfilled \<Rightarrow> [] | Rejected e \<Rightarrow> [UnhandledRejection e])"

text \<open>
  The first part of the listener (lines 151 to 156): \<open>preventDefault\<close>, the
  \<open>FormData\<close> read from the form, \<open>reset\<close>, and \<open>fetch\<close> with the data read.
\<close>

definition newEntryForm_submit_request_effects :: "page \<Rightarrow> effect list" where
  "newEntryForm_submit_request_effects p =
     (let data = newEntryForm_values p
      in [PreventDefault, FormReset,
          Fetch \<lparr>req_method = ''POST'', req_path = ''/api/new'', req_body = fromEntries data\<rparr>])"

text \<open>
  The second part (lines 164 to 169), run when the awaited promises have settled: the
  \<open>catch\<close>, the call of \<open>renderMediaEntries\<close>, and \<open>toggleNewEntryView(false)\<close>.
\<close>

definition newEntryForm_submit_settled_effects :: "network \<Rightarrow> effect list" where
  "newEntryForm_submit_settled_effects net =
     (let (result, caught) =
            (case await_json net of
               Inl error \<Rightarrow> (None, [ConsoleLog error])
             | Inr entries \<Rightarrow> (Some entries, []))
      in caught @ not_awaited_effects (renderMediaEntries_effects result)
           @ toggleNewEntryView_effects False)"

definition newEntryForm_submit_effects :: "network \<Rightarrow> page \<Rightarrow> effect list" where
  "newEntryForm_submit_effects net p =
     newEntryForm_submit_request_effects p @ newEntryForm_submit_settled_effects net"

subsection \<open>The media table\<close>

text \<open>
  A row of \<open>media\<close>: every column holds a value of its declared type or NULL
  (\<open>None\<close>). A comparison with NULL is NULL, \<open>AND\<close> is three-valued, and a row
  violates a CHECK constraint only when the expression is false.
\<close>

record media_row =
  col_title :: "string option"
  col_type :: "string option"
  col_thumbnail :: "string option"
  col_description :: "string option"
  col_genre :: "string option"
  col_released :: "int option"
  col_length :: "int option"
  col_path :: "string option"

definition sql_and :: "bool option \<Rightarrow> bool option \<Rightarrow> bool option" where
  "sql_and a b =
     (if a = Some False \<or> b = Some False then Some False
      else if a = None \<or> b = None then None
      else Some True)"

definition sql_ge :: "int option \<Rightarrow> int \<Rightarrow> bool option" where
  "sql_ge x n = (case x of None \<Rightarrow> None | Some v \<Rightarrow> Some (n \<le> v))"

definition sql_le :: "int option \<Rightarrow> int \<Rightarrow> bool option" where
  "sql_le x n = (case x of None \<Rightarrow> None | Some v \<Rightarrow> Some (v \<le> n))"

definition sql_lt :: "int option \<Rightarrow> int \<Rightarrow> bool option" where
  "sql_lt x n = (case x of None \<Rightarrow> None | Some v \<Rightarrow> Some (v < n))"

definition sql_between :: "int option \<Rightarrow> int \<Rightarrow> int \<Rightarrow> bool option" where
  "sql_between x lo hi = sql_and (sql_ge x lo) (sql_le x hi)"

definition sql_in :: "string option \<Rightarrow> string list \<Rightarrow> bool option" where
  "sql_in x vs = (case x of None \<Rightarrow> None | Some v \<Rightarrow> Some (v \<in> set vs))"

definition check_holds :: "bool option \<Rightarrow> bool" where
  "check_holds b = (b \<noteq> Some False)"

definition media_types :: "string list" where
  "media_types = [''movie'', ''show'', ''video'']"

text \<open>The constraints of \<open>CREATE TABLE media\<close>, column by column.\<close>

definition media_accepts :: "media_row \<Rightarrow> bool" where
  "media_accepts r =
     (col_title r \<noteq> None
      \<and> check_holds (sql_in (col_type r) media_types)
      \<and> check_holds (sql_between (col_released r) 1800 9999)
      \<and> check_holds (sql_lt (col_length r) 100000))"

subsection \<open>Observations and sample data\<close>

text \<open>The cards among the children of \<open>browser\<close>, in document order.\<close>

fun cards_of :: "node list \<Rightarrow> file_element list" where
  "cards_of [] = []"
| "cards_of (FileDiv c # ns) = c # cards_of ns"
| "cards_of (Html s # ns) = cards_of ns"

text \<open>What the user sees of the search mode: the two forms' display and the button's label.\<close>

definition search_view :: "page \<Rightarrow> string \<times> string \<times> string" where
  "search_view p =
     (searchFormSimple_display p, searchFormAdvanced_display p, searchModeBtn_innerText p)"

definition dune_entry :: js_object where
  "dune_entry =
     [''title'' \<mapsto> Str ''Dune'', ''type'' \<mapsto> Str ''movie'',
      ''description'' \<mapsto> Str ''A desert planet'',
      ''thumbnailUrl'' \<mapsto> Str ''dune.png'', ''thumbnail'' \<mapsto> Str ''dune.png'']"

definition clip_entry :: js_object where
  "clip_entry = [''title'' \<mapsto> Str ''Clip'', ''type'' \<mapsto> Str ''video'', ''description'' \<mapsto> Null]"

text \<open>
  A page with the new-entry overlay open over one earlier card, and the form filled in;
  the markup of this form gives its fields no value.
\<close>

definition open_page :: page where
  "open_page =
     \<lparr>browser = [entry_fileDiv clip_entry],
      searchModeBtn_innerText = ''Advanced Search'',
      searchFormSimple_display = ''flex'',
      searchFormAdvanced_display = ''none'',
      body_overflow = ''hidden'',
      newEntryView_display = ''flex'',
      searchFormSimple_values = [(''search'', ''dune'')],
      newEntryForm_values = [(''title'', ''Foo''), (''type'', ''book'')],
      newEntryForm_defaults = [(''title'', []), (''type'', [])],
      console = [],
      unhandled = []\<rparr>"

definition dune_row :: media_row where
  "dune_row =
     \<lparr>col_title = Some ''Dune'', col_type = Some ''movie'', col_thumbnail = None,
      col_description = None, col_genre = Some ''scifi'', col_released = Some 1984,
      col_length = Some 137, col_path = None\<rparr>"

definition clip_row :: media_row where
  "clip_row =
     \<lparr>col_title = Some ''Clip'', col_type = Some ''video'', col_thumbnail = None,
      col_description = None, col_genre = None, col_released = None,
      col_length = None, col_path = None\<rparr>"

section \<open>Properties\<close>

subsection \<open>Card renderer\<close>

lemma append_entries_map: "append_entries entries children = children @ map entry_fileDiv entries"
  by (induction entries arbitrary: children) simp_all

lemma render_nonempty:
  "entries \<noteq> [] \<Longrightarrow>
   renderMediaEntries (Some entries) p = (Fulfilled, p\<lparr>browser := map entry_fileDiv entries\<rparr>)"
  by (simp add: renderMediaEntries_def append_entries_map)

lemma cards_of_map:
  "cards_of (map entry_fileDiv entries) =
   map (\<lambda>entry. createFileElement (get_prop entry ''title'') (get_prop entry ''type'')
          (get_prop entry ''description'') Undefined) entries"
  by (induction entries) (simp_all add: entry_fileDiv_def)

text \<open>
  C4. For a non-empty array of entries, \<open>renderMediaEntries\<close> leaves none of the
  earlier children of \<open>browser\<close> and puts there exactly one card per entry, in the
  order of the array: the children are the entries' cards, as many as there are
  entries, the \<open>i\<close>-th child being the card of the \<open>i\<close>-th entry.
\<close>

theorem renderMediaEntries_one_card_per_entry:
  assumes "entries \<noteq> []"
  shows "renderMediaEntries (Some entries) p =
           (Fulfilled, p\<lparr>browser := map entry_fileDiv entries\<rparr>)
    \<and> cards_of (browser (snd (renderMediaEntries (Some entries) p))) =
        map (\<lambda>entry. createFileElement (get_prop entry ''title'') (get_prop entry ''type'')
               (get_prop entry ''description'') Undefined) entries
    \<and> length (browser (snd (renderMediaEntries (Some entries) p))) = length entries
    \<and> (\<forall>i < length entries.
          browser (snd (renderMediaEntries (Some entries) p)) ! i = entry_fileDiv (entries ! i))"
  using assms by (simp add: render_nonempty cards_of_map)

theorem renderMediaEntries_one_card_per_entry_witness:
  "[dune_entry, clip_entry] \<noteq> []
   \<and> renderMediaEntries (Some [dune_entry, clip_entry]) open_page =
      (Fulfilled, open_page\<lparr>browser :=
         [FileDiv \<lparr>file_thumbnail = Str file_icon, file_title = Str ''Dune'',
                   file_description = Str ''A desert planet''\<rparr>,
          FileDiv \<lparr>file_thumbnail = Undefined, file_title = Str ''Clip'',
                   file_description = Null\<rparr>]\<rparr>)"
  using renderMediaEntries_one_card_per_entry [of "[dune_entry, clip_entry]" open_page]
  by (simp add: entry_fileDiv_def createFileElement_def get_prop_def fileTypeThumbnailMap_def
      dune_entry_def clip_entry_def)

text \<open>
  C5. For the empty array, \<open>renderMediaEntries\<close> replaces whatever \<open>browser\<close>
  held by one node, the span of class \<open>message\<close> with the text "No results found"
  as the script writes it, and no card is left or made.
\<close>

theorem renderMediaEntries_empty_placeholder:
  \<open>renderMediaEntries (Some []) p =
     (Fulfilled, p\<lparr>browser := [Html ''<span class="message">No results found</span?'']\<rparr>)
   \<and> browser (snd (renderMediaEntries (Some []) p)) =
       [Html ''<span class="message">No results found</span?'']
   \<and> length (browser (snd (renderMediaEntries (Some []) p))) = 1
   \<and> cards_of (browser (snd (renderMediaEntries (Some []) p))) = []\<close>
  by (simp add: renderMediaEntries_def no_results_html_def)

text \<open>
  C6. \<open>renderMediaEntries\<close> is idempotent: run again with the same argument on the
  page it has produced, it settles the same way and produces the same page as the first
  run did (for an array of entries, empty or not, and for \<open>undefined\<close> too).
\<close>

theorem renderMediaEntries_idempotent:
  "renderMediaEntries arg (snd (renderMediaEntries arg p)) = renderMediaEntries arg p"
  by (cases arg) (simp_all add: renderMediaEntries_def)

text \<open>
  C1. The card of a rendered entry does not show the entry's own thumbnail. Given a
  truthy fourth argument, \<open>createFileElement\<close> uses it as the thumbnail, but
  \<open>renderMediaEntries\<close> calls it with three arguments: whatever an entry holds under
  \<open>thumbnailUrl\<close> or \<open>thumbnail\<close>, its card is the one it would have without, and
  the card of the sample entry, whose thumbnail is \<open>dune.png\<close>, shows the default icon
  of its type.
\<close>

theorem renderMediaEntries_ignores_explicit_thumbnail:
  "entry_fileDiv (entry(''thumbnailUrl'' \<mapsto> v, ''thumbnail'' \<mapsto> v)) = entry_fileDiv entry
   \<and> get_prop dune_entry ''thumbnailUrl'' = Str ''dune.png''
   \<and> renderMediaEntries (Some [dune_entry]) p =
       (Fulfilled, p\<lparr>browser := [FileDiv \<lparr>file_thumbnail = Str file_icon,
          file_title = Str ''Dune'', file_description = Str ''A desert planet''\<rparr>]\<rparr>)
   \<and> createFileElement (Str ''Dune'') (Str ''movie'') (Str ''A desert planet'') (Str ''dune.png'') =
       \<lparr>file_thumbnail = Str ''dune.png'', file_title = Str ''Dune'',
        file_description = Str ''A desert planet''\<rparr>"
  by (simp add: entry_fileDiv_def get_prop_def renderMediaEntries_def createFileElement_def
      fileTypeThumbnailMap_def dune_entry_def)

subsection \<open>View-state controller\<close>

lemma click_in_simple_state:
  "searchModeBtn_click (initial_page_setup p) = toggleSearchMode ''advanced'' (initial_page_setup p)"
  by (simp add: searchModeBtn_click_def initial_page_setup_def toggleSearchMode_def
      toggleNewEntryView_def)

lemma click_twice:
  "searchModeBtn_click (searchModeBtn_click (initial_page_setup p)) = initial_page_setup p"
  by (simp add: searchModeBtn_click_def initial_page_setup_def toggleSearchMode_def
      toggleNewEntryView_def)

lemma clicks_by_parity:
  "(searchModeBtn_click ^^ n) (initial_page_setup p) =
     (if even n then initial_page_setup p else searchModeBtn_click (initial_page_setup p))"
  by (induction n) (simp_all add: click_twice)

lemma search_view_simple:
  "search_view (initial_page_setup p) = (''flex'', ''none'', ''Advanced Search'')"
  by (simp add: search_view_def initial_page_setup_def toggleSearchMode_def toggleNewEntryView_def)

lemma search_view_advanced:
  "search_view (searchModeBtn_click (initial_page_setup p)) = (''none'', ''flex'', ''Simple Search'')"
  by (simp add: click_in_simple_state search_view_def toggleSearchMode_def)

lemma click_changes_page: "searchModeBtn_click (initial_page_setup p) \<noteq> initial_page_setup p"
proof
  assume "searchModeBtn_click (initial_page_setup p) = initial_page_setup p"
  then have "search_view (searchModeBtn_click (initial_page_setup p)) = search_view (initial_page_setup p)"
    by simp
  then show False
    by (simp add: search_view_simple search_view_advanced)
qed

text \<open>
  C7. The search mode is a two-cycle. Whatever the markup loaded, the script's setup
  shows the simple form, hides the advanced one and labels the button "Advanced Search";
  one click gives a different page, with the advanced form shown, the simple one hidden
  and the label "Simple Search"; the second click gives back the very page the setup
  left. After any number of clicks the page is one of these two, so the label always
  names the mode that is not shown. (The label is read back as it was written: the
  stylesheet is not part of the script.)
\<close>

theorem search_mode_two_cycle:
  "searchModeBtn_click (searchModeBtn_click (initial_page_setup p)) = initial_page_setup p
   \<and> searchModeBtn_click (initial_page_setup p) \<noteq> initial_page_setup p
   \<and> search_view (initial_page_setup p) = (''flex'', ''none'', ''Advanced Search'')
   \<and> search_view (searchModeBtn_click (initial_page_setup p)) = (''none'', ''flex'', ''Simple Search'')
   \<and> (searchModeBtn_click ^^ n) (initial_page_setup p) =
       (if even n then initial_page_setup p else searchModeBtn_click (initial_page_setup p))
   \<and> search_view ((searchModeBtn_click ^^ n) (initial_page_setup p)) =
       (if even n then (''flex'', ''none'', ''Advanced Search'')
        else (''none'', ''flex'', ''Simple Search''))"
  by (simp add: click_twice click_changes_page search_view_simple search_view_advanced
      clicks_by_parity)

subsection \<open>Network failures\<close>

text \<open>
  C2. A failed call is caught and logged by the two submit listeners only. When
  \<open>fetch\<close> or \<open>response.json()\<close> rejects during the load of the page, the
  \<open>load\<close> listener's own promise rejects with that error, and the page, its console
  included, is as it was. The submit listeners log the same errors to the console and
  complete; the rendering they then start with an undefined result rejects with a
  TypeError that nothing awaits.
\<close>

theorem window_load_failure_not_caught:
  "window_load FetchRejects p = (Rejected FetchFailed, p)
   \<and> window_load JsonRejects p = (Rejected JsonParseFailed, p)
   \<and> searchFormSimple_submit FetchRejects p =
       (Fulfilled, p\<lparr>console := console p @ [FetchFailed], unhandled := unhandled p @ [TypeError]\<rparr>)
   \<and> searchFormSimple_submit JsonRejects p =
       (Fulfilled, p\<lparr>console := console p @ [JsonParseFailed], unhandled := unhandled p @ [TypeError]\<rparr>)
   \<and> console (snd (newEntryForm_submit FetchRejects p)) = console p @ [FetchFailed]
   \<and> console (snd (newEntryForm_submit JsonRejects p)) = console p @ [JsonParseFailed]
   \<and> fst (newEntryForm_submit FetchRejects p) = Fulfilled
   \<and> fst (newEntryForm_submit JsonRejects p) = Fulfilled"
  by (simp add: window_load_def getRecentMediaEntries_def await_json_def
      searchFormSimple_submit_def searchFormSimple_submit_settled_def
      searchFormSimple_submit_request_def newEntryForm_submit_def newEntryForm_submit_settled_def
      newEntryForm_submit_request_def not_awaited_def renderMediaEntries_def toggleNewEntryView_def)

subsection \<open>The new-entry form\<close>

text \<open>
  C3, as stated, fails on the sample page, whose overlay is open. When \<open>fetch\<close>
  rejects, the overlay is closed although no response was rendered: the cards are the
  earlier ones, the rendering has rejected, and among the effects of the listener there
  are the two that close the overlay and none on the display region.
\<close>

theorem newEntryForm_submit_counterexample:
  "newEntryView_display open_page = ''flex''
   \<and> newEntryView_display (snd (newEntryForm_submit FetchRejects open_page)) = ''none''
   \<and> browser (snd (newEntryForm_submit FetchRejects open_page)) = browser open_page
   \<and> unhandled (snd (newEntryForm_submit FetchRejects open_page)) = [TypeError]
   \<and> filter is_browser_effect (newEntryForm_submit_effects FetchRejects open_page) = []
   \<and> filter is_overlay_effect (newEntryForm_submit_effects FetchRejects open_page) =
       [SetBodyOverflow ''auto'', SetNewEntryViewDisplay ''none'']"
  by (simp add: newEntryForm_submit_def newEntryForm_submit_settled_def
      newEntryForm_submit_request_def await_json_def not_awaited_def renderMediaEntries_def
      toggleNewEntryView_def open_page_def newEntryForm_submit_effects_def
      newEntryForm_submit_request_effects_def newEntryForm_submit_settled_effects_def
      not_awaited_effects_def renderMediaEntries_effects_def toggleNewEntryView_effects_def)

text \<open>The effects, applied in their order, give the pages of the listener's two parts.\<close>

lemma fold_AppendChild:
  "fold apply_effect (map (\<lambda>entry. AppendChild (entry_fileDiv entry)) entries) q =
     q\<lparr>browser := browser q @ map entry_fileDiv entries\<rparr>"
  by (induction entries arbitrary: q) simp_all

lemma render_effects_run:
  "fold apply_effect (snd (renderMediaEntries_effects arg)) q = snd (renderMediaEntries arg q)
   \<and> fst (renderMediaEntries_effects arg) = fst (renderMediaEntries arg q)"
  by (cases arg)
     (simp_all add: renderMediaEntries_effects_def renderMediaEntries_def fold_AppendChild
        append_entries_map no_results_html_def)

lemma not_awaited_effects_run:
  "fold apply_effect (not_awaited_effects (renderMediaEntries_effects arg)) q =
     not_awaited (renderMediaEntries arg q)"
  by (cases arg)
     (simp_all add: not_awaited_effects_def not_awaited_def renderMediaEntries_effects_def
        renderMediaEntries_def fold_AppendChild append_entries_map no_results_html_def)

lemma request_effects_run:
  "fold apply_effect (newEntryForm_submit_request_effects p) p = snd (newEntryForm_submit_request p)"
  by (simp add: newEntryForm_submit_request_effects_def newEntryForm_submit_request_def)

lemma settled_effects_run:
  "fold apply_effect (newEntryForm_submit_settled_effects net) q =
     snd (newEntryForm_submit_settled net q)"
  by (cases net)
     (simp_all add: newEntryForm_submit_settled_effects_def newEntryForm_submit_settled_def
        await_json_def not_awaited_effects_run toggleNewEntryView_effects_def
        toggleNewEntryView_def)

text \<open>Where the effects of each kind stand in the list.\<close>

lemma settled_effects_no_fetch: "filter is_fetch (newEntryForm_submit_settled_effects net) = []"
  by (cases net)
     (simp_all add: newEntryForm_submit_settled_effects_def await_json_def not_awaited_effects_def
        renderMediaEntries_effects_def toggleNewEntryView_effects_def filter_map comp_def)

lemma settled_effects_resolves:
  "newEntryForm_submit_settled_effects (JsonResolves entries) =
     snd (renderMediaEntries_effects (Some entries))
       @ [SetBodyOverflow ''auto'', SetNewEntryViewDisplay ''none'']"
  by (simp add: newEntryForm_submit_settled_effects_def await_json_def not_awaited_effects_def
      renderMediaEntries_effects_def toggleNewEntryView_effects_def)

lemma takeWhile_appended_cards:
  "takeWhile (\<lambda>e. \<not> is_overlay_effect e)
     (map (\<lambda>entry. AppendChild (entry_fileDiv entry)) entries @ rest) =
   map (\<lambda>entry. AppendChild (entry_fileDiv entry)) entries
     @ takeWhile (\<lambda>e. \<not> is_overlay_effect e) rest"
  by (induction entries) simp_all

lemma dropWhile_appended_cards:
  "dropWhile (\<lambda>e. \<not> is_overlay_effect e)
     (map (\<lambda>entry. AppendChild (entry_fileDiv entry)) entries @ rest) =
   dropWhile (\<lambda>e. \<not> is_overlay_effect e) rest"
  by (induction entries) simp_all

lemma takeWhile_render_effects:
  "takeWhile (\<lambda>e. \<not> is_overlay_effect e)
     (snd (renderMediaEntries_effects arg) @ [SetBodyOverflow a, SetNewEntryViewDisplay b]) =
   snd (renderMediaEntries_effects arg)"
  by (cases arg) (simp_all add: renderMediaEntries_effects_def takeWhile_appended_cards)

lemma settled_effects_after_close:
  "filter is_browser_effect
     (dropWhile (\<lambda>e. \<not> is_overlay_effect e) (newEntryForm_submit_settled_effects net)) = []"
  by (cases net)
     (simp_all add: newEntryForm_submit_settled_effects_def await_json_def not_awaited_effects_def
        renderMediaEntries_effects_def toggleNewEntryView_effects_def dropWhile_appended_cards)

lemma settled_effects_overlay:
  "filter is_overlay_effect (newEntryForm_submit_settled_effects net) =
     [SetBodyOverflow ''auto'', SetNewEntryViewDisplay ''none'']"
  by (cases net)
     (simp_all add: newEntryForm_submit_settled_effects_def await_json_def not_awaited_effects_def
        renderMediaEntries_effects_def toggleNewEntryView_effects_def filter_map comp_def)

text \<open>
  C3, amended. The effects of the listener, applied in their order, give the pages of
  its two parts. Before the one \<open>fetch\<close> that sends the request, hence before any
  response, the listener has prevented the default and reset the form, and the request
  carries the values from before the reset; on a form to whose fields the markup gives
  no value, every field is empty at that moment. When the response has arrived, the
  effects of the second part are those of rendering the response, followed by the two
  that close the overlay: all that comes before the overlay is closed is the rendering,
  and no effect on the display region comes after it. However the call ends, the overlay
  is closed by the last two effects; when the call has failed, no effect on the display
  region comes before them either.
\<close>

theorem newEntryForm_submit_reset_render_close:
  "fold apply_effect (newEntryForm_submit_request_effects p) p = snd (newEntryForm_submit_request p)
   \<and> fold apply_effect (newEntryForm_submit_settled_effects net) q =
       snd (newEntryForm_submit_settled net q)
   \<and> takeWhile (\<lambda>e. \<not> is_fetch e) (newEntryForm_submit_effects net p) = [PreventDefault, FormReset]
   \<and> filter is_fetch (newEntryForm_submit_effects net p) = [Fetch (fst (newEntryForm_submit_request p))]
   \<and> req_body (fst (newEntryForm_submit_request p)) = fromEntries (newEntryForm_values p)
   \<and> (list_all (\<lambda>field. snd field = []) (newEntryForm_defaults p) \<longrightarrow>
        list_all (\<lambda>field. snd field = [])
          (newEntryForm_values
            (fold apply_effect (takeWhile (\<lambda>e. \<not> is_fetch e) (newEntryForm_submit_effects net p)) p)))
   \<and> newEntryForm_submit_settled_effects (JsonResolves entries) =
       snd (renderMediaEntries_effects (Some entries))
         @ [SetBodyOverflow ''auto'', SetNewEntryViewDisplay ''none'']
   \<and> fold apply_effect (snd (renderMediaEntries_effects (Some entries))) q =
       snd (renderMediaEntries (Some entries) q)
   \<and> takeWhile (\<lambda>e. \<not> is_overlay_effect e) (newEntryForm_submit_settled_effects (JsonResolves entries)) =
       snd (renderMediaEntries_effects (Some entries))
   \<and> filter is_browser_effect
        (dropWhile (\<lambda>e. \<not> is_overlay_effect e) (newEntryForm_submit_settled_effects net)) = []
   \<and> filter is_overlay_effect (newEntryForm_submit_settled_effects net) =
       [SetBodyOverflow ''auto'', SetNewEntryViewDisplay ''none'']
   \<and> filter is_browser_effect (newEntryForm_submit_settled_effects FetchRejects) = []
   \<and> filter is_browser_effect (newEntryForm_submit_settled_effects JsonRejects) = []"
proof -
  have first:
    "takeWhile (\<lambda>e. \<not> is_fetch e) (newEntryForm_submit_effects net p) = [PreventDefault, FormReset]"
    by (simp add: newEntryForm_submit_effects_def newEntryForm_submit_request_effects_def)
  have sent:
    "filter is_fetch (newEntryForm_submit_effects net p) = [Fetch (fst (newEntryForm_submit_request p))]"
    by (simp add: newEntryForm_submit_effects_def newEntryForm_submit_request_effects_def
        newEntryForm_submit_request_def settled_effects_no_fetch)
  have body: "req_body (fst (newEntryForm_submit_request p)) = fromEntries (newEntryForm_values p)"
    by (simp add: newEntryForm_submit_request_def)
  have failed:
    "filter is_browser_effect (newEntryForm_submit_settled_effects FetchRejects) = []"
    "filter is_browser_effect (newEntryForm_submit_settled_effects JsonRejects) = []"
    by (simp_all add: newEntryForm_submit_settled_effects_def await_json_def not_awaited_effects_def
        renderMediaEntries_effects_def toggleNewEntryView_effects_def)
  show ?thesis
    by (simp add: first sent body failed request_effects_run settled_effects_run
        settled_effects_resolves takeWhile_render_effects settled_effects_after_close
        settled_effects_overlay render_effects_run)
qed

theorem newEntryForm_submit_reset_render_close_witness:
  "list_all (\<lambda>field. snd field = []) (newEntryForm_defaults open_page)
   \<and> newEntryForm_values open_page = [(''title'', ''Foo''), (''type'', ''book'')]
   \<and> newEntryForm_values
       (fold apply_effect
         (takeWhile (\<lambda>e. \<not> is_fetch e) (newEntryForm_submit_effects (JsonResolves [dune_entry]) open_page))
         open_page) = [(''title'', []), (''type'', [])]
   \<and> req_body (fst (newEntryForm_submit_request open_page)) ''title'' = Some ''Foo''
   \<and> req_body (fst (newEntryForm_submit_request open_page)) ''type'' = Some ''book''
   \<and> newEntryForm_submit_effects (JsonResolves [dune_entry]) open_page =
       [PreventDefault, FormReset, Fetch (fst (newEntryForm_submit_request open_page)),
        SetInnerHTML [], AppendChild (entry_fileDiv dune_entry),
        SetBodyOverflow ''auto'', SetNewEntryViewDisplay ''none'']"
  using newEntryForm_submit_reset_render_close
    [of open_page "JsonResolves [dune_entry]" open_page "[dune_entry]"]
  by (simp add: newEntryForm_submit_effects_def newEntryForm_submit_request_effects_def
      newEntryForm_submit_request_def newEntryForm_submit_settled_effects_def await_json_def
      not_awaited_effects_def renderMediaEntries_effects_def toggleNewEntryView_effects_def
      fromEntries_def open_page_def)

text \<open>
  C9. However the network call ends, and whatever the page is when it ends, the
  new-entry submit listener completes with the overlay hidden and the scrolling of the
  page restored: \<open>toggleNewEntryView(false)\<close> is its last statement, after the
  \<open>try\<close>/\<open>catch\<close>, and the rendering before it cannot throw into the listener.
\<close>

theorem newEntryForm_submit_always_closes:
  "fst (newEntryForm_submit_settled net p) = Fulfilled
   \<and> newEntryView_display (snd (newEntryForm_submit_settled net p)) = ''none''
   \<and> body_overflow (snd (newEntryForm_submit_settled net p)) = ''auto''
   \<and> fst (newEntryForm_submit net p) = Fulfilled
   \<and> newEntryView_display (snd (newEntryForm_submit net p)) = ''none''
   \<and> body_overflow (snd (newEntryForm_submit net p)) = ''auto''"
  by (simp add: newEntryForm_submit_def newEntryForm_submit_settled_def toggleNewEntryView_def
      Let_def split: prod.splits)

subsection \<open>The media table\<close>

text \<open>
  C8. A row that the table accepts has a title, and its type, year of release and
  length, where they are not NULL, are one of the three listed types, a year from 1800
  to 9999, and a length below 100000.
\<close>

theorem media_accepts_constraints:
  assumes "media_accepts r"
  shows "col_title r \<noteq> None
    \<and> (\<forall>t. col_type r = Some t \<longrightarrow> t \<in> {''movie'', ''show'', ''video''})
    \<and> (\<forall>y. col_released r = Some y \<longrightarrow> 1800 \<le> y \<and> y \<le> 9999)
    \<and> (\<forall>n. col_length r = Some n \<longrightarrow> n < 100000)"
  using assms
  by (auto simp: media_accepts_def check_holds_def sql_in_def sql_between_def sql_and_def
      sql_ge_def sql_le_def sql_lt_def media_types_def split: if_splits)

theorem media_accepts_constraints_witness:
  "media_accepts dune_row
   \<and> col_title dune_row \<noteq> None
   \<and> col_type dune_row = Some ''movie'' \<and> ''movie'' \<in> {''movie'', ''show'', ''video''}
   \<and> col_released dune_row = Some 1984 \<and> (1800::int) \<le> 1984 \<and> (1984::int) \<le> 9999
   \<and> col_length dune_row = Some 137 \<and> (137::int) < 100000"
  using media_accepts_constraints [of dune_row]
  by (simp add: media_accepts_def check_holds_def sql_in_def sql_between_def sql_and_def
      sql_ge_def sql_le_def sql_lt_def media_types_def dune_row_def)

text \<open>
  C10. The types of the table and the keys of the page's thumbnail table differ. The
  table accepts the sample row of type \<open>video\<close> with no thumbnail, \<open>video\<close> is not
  a key of \<open>fileTypeThumbnailMap\<close>, and the card of an entry of that type gets
  \<open>undefined\<close> as its thumbnail. The map has icons for \<open>music\<close> and \<open>book\<close>,
  and the table rejects every row of either type.
\<close>

theorem media_types_and_thumbnail_keys_disagree:
  "media_accepts clip_row \<and> col_type clip_row = Some ''video'' \<and> col_thumbnail clip_row = None
   \<and> fileTypeThumbnailMap ''video'' = None
   \<and> entry_fileDiv clip_entry =
       FileDiv \<lparr>file_thumbnail = Undefined, file_title = Str ''Clip'', file_description = Null\<rparr>
   \<and> fileTypeThumbnailMap ''music'' = Some (Str file_icon)
   \<and> fileTypeThumbnailMap ''book'' = Some (Str file_icon)
   \<and> \<not> media_accepts (r\<lparr>col_type := Some ''music''\<rparr>)
   \<and> \<not> media_accepts (r\<lparr>col_type := Some ''book''\<rparr>)
   \<and> dom fileTypeThumbnailMap = {''movie'', ''show'', ''music'', ''book''}
   \<and> set media_types = {''movie'', ''show'', ''video''}"
  by (auto simp: media_accepts_def check_holds_def sql_in_def sql_between_def sql_and_def
      sql_ge_def sql_le_def sql_lt_def media_types_def clip_row_def clip_entry_def
      fileTypeThumbnailMap_def entry_fileDiv_def createFileElement_def get_prop_def
      split: if_splits)

end
